theory Spec2Isabelle
  imports
    Main
    "HOL-Library.Multiset"
    "HOL-Library.Sublist"
    "HOL-Library.Char_ord"
    "HOL-Library.List_Lexorder"
    "HOL-Library.Product_Lexorder"
begin

section \<open>Data model of package db\<close>

text \<open>
  The structs of package \<^verbatim>\<open>db\<close> that \<^verbatim>\<open>db.go\<close> reads and writes. Their declarations
  are not part of the sources at hand; the fields are the ones \<^verbatim>\<open>db.go\<close> uses, together
  with the columns of the tables (the \<^verbatim>\<open>archive_jobs\<close> migration and the persisted
  schema). Fields are named \<^verbatim>\<open>Struct_Field\<close>. Go's \<^verbatim>\<open>int\<close> identifiers are \<open>int\<close>: no
  arithmetic that could overflow is done on them. A pointer field is an \<open>option\<close>
  (\<open>None\<close> is \<^verbatim>\<open>nil\<close>); pointer fields live in memory only and are not columns.

  A \<^verbatim>\<open>time.Time\<close> is an \<open>int\<close>: the nanoseconds since Go's zero time, so the zero value
  of a \<^verbatim>\<open>time.Time\<close> field is \<open>0\<close>, and the comparison of two instants is \<open><\<close> on \<open>int\<close>.
\<close>

record Category =
  Category_ID :: int
  Category_Name :: string

datatype Folder = MkFolder
  (Folder_ID: int)
  (Folder_Folder: "Folder option")
  (Folder_FolderID: int)
  (Folder_Category: "Category option")
  (Folder_CategoryID: int)
  (Folder_Depth: int)
  (Folder_PublicPath: string)
  (Folder_Name: string)

record RealFolder =
  RealFolder_ID :: int
  RealFolder_Folder :: "Folder option"
  RealFolder_FolderID :: int
  RealFolder_FullPath :: string

record File =
  File_ID :: int
  File_Category :: "Category option"
  File_CategoryID :: int
  File_FolderID :: int
  File_Depth :: int
  File_PublicPath :: string
  File_FullPath :: string

record ArchiveJob =
  ArchiveJob_ID :: int
  ArchiveJob_CreatedAt :: int
  ArchiveJob_NextAttemptAt :: int
  ArchiveJob_Files :: string
  ArchiveJob_NotificationEmails :: string
  ArchiveJob_Processed :: bool

text \<open>\<^verbatim>\<open>mail.Address\<close> of the standard library; its \<^verbatim>\<open>String\<close> method is a parameter
  \<open>addrString\<close> of the functions that call it.\<close>

record Address =
  Address_Name :: string
  Address_Address :: string

text \<open>The zero value of \<^verbatim>\<open>time.Time\<close> and the duration \<^verbatim>\<open>time.Hour\<close> in nanoseconds.\<close>

definition zeroTime :: int where
  "zeroTime = 0"


text \<open>
  The errors \<^verbatim>\<open>db.go\<close> builds with \<^verbatim>\<open>fmt.Errorf\<close>, one constructor for each message, and
  the error an operation of the database layer may already carry.
\<close>

datatype error =
    NoFilesToArchive
  | NoNotificationAddresses
  | DifferentParentFound
  | DifferentFolderFound
  | StorageError string

text \<open>A call that panics (a nil pointer dereference, a negative \<^verbatim>\<open>strings.Repeat\<close> count)
  does not return.\<close>

datatype 'a outcome = Panic | Return 'a

section \<open>The database operation\<close>

text \<open>
  An \<^verbatim>\<open>Operation\<close> is the state all functions of \<^verbatim>\<open>db.go\<close> work on: the tables, each
  a list of rows in row order, and the error of the operation. The library's operation
  keeps the first error: once \<open>Err\<close> is set, a select finds nothing and a save writes
  nothing. The table of inventories takes no part in the functions modelled here.
\<close>

record Operation =
  Err :: "error option"
  Files :: "File list"
  Folders :: "Folder list"
  RealFolders :: "RealFolder list"
  Categories :: "Category list"
  ArchiveJobs :: "ArchiveJob list"

text \<open>The row id of an inserted row: one more than the largest id in use, 1 in an empty
  table.\<close>

definition nextID :: "int list \<Rightarrow> int" where
  "nextID ids = (if ids = [] then 1 else Max (set ids) + 1)"

text \<open>
  \<^verbatim>\<open>Save\<close>: a record whose primary key is zero is inserted at the end of the table and
  receives its new id; any other record replaces the row of its id. \<open>strip\<close> removes what
  is not a column. The result is the record as the caller holds it afterwards and the
  new table.
\<close>

definition saveRow :: "('r \<Rightarrow> int) \<Rightarrow> (int \<Rightarrow> 'r \<Rightarrow> 'r) \<Rightarrow> ('r \<Rightarrow> 'r) \<Rightarrow> 'r \<Rightarrow> 'r list \<Rightarrow> 'r \<times> 'r list" where
  "saveRow getID setID strip r rows =
     (if getID r = 0
      then (let r' = setID (nextID (map getID rows)) r in (r', rows @ [strip r']))
      else (r, map (\<lambda>x. if getID x = getID r then strip r else x) rows))"

text \<open>\<^verbatim>\<open>Select().Where(...).First(dest)\<close>: the first row that satisfies the condition, or
  none (\<^verbatim>\<open>ok = false\<close>); nothing once the operation has an error.\<close>

definition selectFirst :: "Operation \<Rightarrow> ('r \<Rightarrow> bool) \<Rightarrow> 'r list \<Rightarrow> 'r option" where
  "selectFirst op P rows = (if Err op \<noteq> None then None else find P rows)"

text \<open>\<^verbatim>\<open>Select().Where(...).AllObjects(dest)\<close>: all rows that satisfy the condition, in row
  order.\<close>

definition selectAll :: "Operation \<Rightarrow> ('r \<Rightarrow> bool) \<Rightarrow> 'r list \<Rightarrow> 'r list" where
  "selectAll op P rows = (if Err op \<noteq> None then [] else filter P rows)"

definition stripFolder :: "Folder \<Rightarrow> Folder" where
  "stripFolder r = MkFolder (Folder_ID r) None (Folder_FolderID r) None (Folder_CategoryID r)
     (Folder_Depth r) (Folder_PublicPath r) (Folder_Name r)"

definition setFolderID :: "int \<Rightarrow> Folder \<Rightarrow> Folder" where
  "setFolderID i r = MkFolder i (Folder_Folder r) (Folder_FolderID r) (Folder_Category r)
     (Folder_CategoryID r) (Folder_Depth r) (Folder_PublicPath r) (Folder_Name r)"


definition Folders_Save :: "Folder \<Rightarrow> Operation \<Rightarrow> Folder \<times> Operation" where
  "Folders_Save f op =
     (if Err op \<noteq> None then (f, op)
      else (let (f', rows) = saveRow Folder_ID setFolderID stripFolder f (Folders op)
            in (f', op\<lparr>Folders := rows\<rparr>)))"

definition RealFolders_Save :: "RealFolder \<Rightarrow> Operation \<Rightarrow> RealFolder \<times> Operation" where
  "RealFolders_Save f op =
     (if Err op \<noteq> None then (f, op)
      else (let (f', rows) = saveRow RealFolder_ID (\<lambda>i r. r\<lparr>RealFolder_ID := i\<rparr>)
                               (\<lambda>r. r\<lparr>RealFolder_Folder := None\<rparr>) f (RealFolders op)
            in (f', op\<lparr>RealFolders := rows\<rparr>)))"

definition ArchiveJobs_Save :: "ArchiveJob \<Rightarrow> Operation \<Rightarrow> ArchiveJob \<times> Operation" where
  "ArchiveJobs_Save j op =
     (if Err op \<noteq> None then (j, op)
      else (let (j', rows) = saveRow ArchiveJob_ID (\<lambda>i r. r\<lparr>ArchiveJob_ID := i\<rparr>) (\<lambda>r. r) j (ArchiveJobs op)
            in (j', op\<lparr>ArchiveJobs := rows\<rparr>)))"

section \<open>The archive job queue\<close>

text \<open>\<^verbatim>\<open>strings.Join\<close>.\<close>

fun Join :: "string list \<Rightarrow> string \<Rightarrow> string" where
  "Join [] sep = []"
| "Join [x] sep = x"
| "Join (x # y # ys) sep = x @ sep @ Join (y # ys) sep"

text \<open>
  \<^verbatim>\<open>QueueArchiveJob\<close>. \<open>now\<close> is the value of \<^verbatim>\<open>time.Now()\<close>. The struct literal sets
  \<^verbatim>\<open>CreatedAt\<close>, \<^verbatim>\<open>NotificationEmails\<close> and \<^verbatim>\<open>Files\<close>; every other field has its zero value.
  The result is the returned error and the operation afterwards.
\<close>

definition QueueArchiveJob :: "(Address \<Rightarrow> string) \<Rightarrow> int \<Rightarrow> Address list \<Rightarrow> File list \<Rightarrow> Operation \<Rightarrow> error option \<times> Operation" where
  "QueueArchiveJob addrString now addrs files op =
     (if length files = 0 then (Some NoFilesToArchive, op)
      else if length addrs = 0 then (Some NoNotificationAddresses, op)
      else (let filePaths = map File_FullPath files;
                emails = map addrString addrs;
                (j, op') = ArchiveJobs_Save
                   \<lparr>ArchiveJob_ID = 0,
                    ArchiveJob_CreatedAt = now,
                    ArchiveJob_NextAttemptAt = zeroTime,
                    ArchiveJob_Files = Join filePaths [CHR 0x1E],
                    ArchiveJob_NotificationEmails = Join emails '','',
                    ArchiveJob_Processed = False\<rparr> op
            in (Err op', op')))"

text \<open>
  The select of \<^verbatim>\<open>ProcessArchiveJob\<close>:
  \<^verbatim>\<open>Where("next_attempt_at < ? AND processed = ?", time.Now(), false)\<close>, then
  \<^verbatim>\<open>Order("created_at ASC").Limit(1).First(j)\<close>. The order is a stable sort of the rows by
  \<^verbatim>\<open>created_at\<close>.
\<close>

definition readyJob :: "int \<Rightarrow> ArchiveJob \<Rightarrow> bool" where
  "readyJob now j \<longleftrightarrow> ArchiveJob_NextAttemptAt j < now \<and> ArchiveJob_Processed j = False"








section \<open>Categories, folders and real folders\<close>

text \<open>\<^verbatim>\<open>os.PathSeparator\<close> on the systems the program runs on.\<close>

definition PathSeparator :: char where
  "PathSeparator = CHR ''/''"

text \<open>\<^verbatim>\<open>strings.Count(s, sep)\<close> for a separator of one character.\<close>

definition Count :: "string \<Rightarrow> char \<Rightarrow> int" where
  "Count s sep = int (length (filter (\<lambda>c. c = sep) s))"

text \<open>\<^verbatim>\<open>filepath.Split\<close>: the path is cut right after its last separator.\<close>

definition Split :: "string \<Rightarrow> string \<times> string" where
  "Split path =
     (let i = length path - length (takeWhile (\<lambda>c. c \<noteq> PathSeparator) (rev path))
      in (take i path, drop i path))"



definition FindFolderByPath :: "Category \<Rightarrow> string \<Rightarrow> Operation \<Rightarrow> Folder option \<times> error option" where
  "FindFolderByPath c path op =
     (selectFirst op (\<lambda>r. Folder_CategoryID r = Category_ID c \<and> Folder_PublicPath r = path) (Folders op),
      Err op)"

text \<open>
  \<^verbatim>\<open>FindOrCreateFolder\<close>. The parent \<open>f\<close> is a pointer that may be \<^verbatim>\<open>nil\<close>; the category is
  dereferenced without a check and is a value here.
\<close>

definition FindOrCreateFolder :: "Category \<Rightarrow> Folder option \<Rightarrow> string \<Rightarrow> Operation \<Rightarrow> (Folder option \<times> error option) \<times> Operation" where
  "FindOrCreateFolder c f path op =
     (let parentFolderID = (case f of None \<Rightarrow> 0 | Some p \<Rightarrow> Folder_ID p);
          (folder, err) = FindFolderByPath c path op in
      if err \<noteq> None then ((None, err), op)
      else (case folder of
              Some r \<Rightarrow>
                if Folder_FolderID r \<noteq> parentFolderID then ((None, Some DifferentParentFound), op)
                else ((Some (MkFolder (Folder_ID r) f (Folder_FolderID r) (Some c) (Folder_CategoryID r)
                               (Folder_Depth r) (Folder_PublicPath r) (Folder_Name r)), None), op)
            | None \<Rightarrow>
                (let filename = snd (Split path);
                     newFolder = MkFolder 0 f parentFolderID (Some c) (Category_ID c)
                                   (Count path PathSeparator) path filename;
                     (saved, op') = Folders_Save newFolder op
                 in ((Some saved, Err op'), op'))))"

text \<open>\<^verbatim>\<open>FindRealFolderByPath\<close> reads \<^verbatim>\<open>f.ID\<close> without a check: a \<^verbatim>\<open>nil\<close> folder panics.\<close>

definition FindRealFolderByPath :: "Folder option \<Rightarrow> string \<Rightarrow> Operation \<Rightarrow> (RealFolder option \<times> error option) outcome" where
  "FindRealFolderByPath f path op =
     (case f of
        None \<Rightarrow> Panic
      | Some p \<Rightarrow>
          Return (selectFirst op (\<lambda>r. RealFolder_FolderID r = Folder_ID p \<and> RealFolder_FullPath r = path)
                    (RealFolders op),
                  Err op))"

definition FindOrCreateRealFolder :: "Folder option \<Rightarrow> string \<Rightarrow> Operation \<Rightarrow> ((RealFolder option \<times> error option) \<times> Operation) outcome" where
  "FindOrCreateRealFolder f path op =
     (let fid = (case f of None \<Rightarrow> 0 | Some p \<Rightarrow> Folder_ID p) in
      case FindRealFolderByPath f path op of
        Panic \<Rightarrow> Panic
      | Return (folder, err) \<Rightarrow>
          if err \<noteq> None then Return ((None, err), op)
          else (case folder of
                  Some r \<Rightarrow>
                    if RealFolder_FolderID r \<noteq> fid then Return ((None, Some DifferentFolderFound), op)
                    else Return ((Some (r\<lparr>RealFolder_Folder := f\<rparr>), None), op)
                | None \<Rightarrow>
                    (let newFolder = \<lparr>RealFolder_ID = 0, RealFolder_Folder = f,
                                      RealFolder_FolderID = fid, RealFolder_FullPath = path\<rparr>;
                         (saved, op') = RealFolders_Save newFolder op
                     in Return ((Some saved, Err op'), op'))))"

text \<open>
  The parent key \<^verbatim>\<open>FindOrCreateFolder\<close> computes from its parent argument, and the \<^verbatim>\<open>Where\<close>
  conditions of the two lookups by path.
\<close>

definition parentID :: "Folder option \<Rightarrow> int" where
  "parentID f = (case f of None \<Rightarrow> 0 | Some p \<Rightarrow> Folder_ID p)"

definition folderKey :: "Category \<Rightarrow> string \<Rightarrow> Folder \<Rightarrow> bool" where
  "folderKey c path = (\<lambda>r. Folder_CategoryID r = Category_ID c \<and> Folder_PublicPath r = path)"

definition realFolderKey :: "Folder \<Rightarrow> string \<Rightarrow> RealFolder \<Rightarrow> bool" where
  "realFolderKey p path = (\<lambda>r. RealFolder_FolderID r = Folder_ID p \<and> RealFolder_FullPath r = path)"

section \<open>Fetching files by id\<close>

text \<open>
  \<^verbatim>\<open>strings.ToLower\<close> on the bytes of a string: the letters \<^verbatim>\<open>A\<close> to \<^verbatim>\<open>Z\<close> are mapped to
  \<^verbatim>\<open>a\<close> to \<^verbatim>\<open>z\<close>, every other byte is kept. This is what the function does on ASCII
  strings; the general theorems below use no property of it, and the examples apply it to
  ASCII strings only.
\<close>

definition toLowerChar :: "char \<Rightarrow> char" where
  "toLowerChar c = (if CHR ''A'' \<le> c \<and> c \<le> CHR ''Z'' then char_of (of_char c + (32::nat)) else c)"

definition ToLower :: "string \<Rightarrow> string" where
  "ToLower s = map toLowerChar s"

text \<open>\<^verbatim>\<open>AllCategories\<close>: all rows, ordered by \<^verbatim>\<open>LOWER(name)\<close>.\<close>

definition AllCategories :: "Operation \<Rightarrow> Category list \<times> error option" where
  "AllCategories op =
     (sort_key (\<lambda>c. ToLower (Category_Name c)) (selectAll op (\<lambda>c. True) (Categories op)), Err op)"

text \<open>
  \<^verbatim>\<open>PopulateCategories\<close> assigns through the pointers it is given; here it returns the
  files and folders as they are afterwards, and the error. Looking up a key that the Go map
  does not hold gives \<^verbatim>\<open>nil\<close>.
\<close>

definition PopulateCategories :: "File list \<Rightarrow> Folder list \<Rightarrow> Operation \<Rightarrow> File list \<times> Folder list \<times> error option" where
  "PopulateCategories files folders op =
     (let (categoryList, err) = AllCategories op in
      if err \<noteq> None then (files, folders, err)
      else (let categoryLookup = fold (\<lambda>c m. m(Category_ID c \<mapsto> c)) categoryList Map.empty
            in (map (\<lambda>f. f\<lparr>File_Category := categoryLookup (File_CategoryID f)\<rparr>) files,
                map (\<lambda>f. MkFolder (Folder_ID f) (Folder_Folder f) (Folder_FolderID f)
                            (categoryLookup (Folder_CategoryID f)) (Folder_CategoryID f)
                            (Folder_Depth f) (Folder_PublicPath f) (Folder_Name f)) folders,
                None)))"

text \<open>
  \<^verbatim>\<open>appendFiles\<close>: one query \<^verbatim>\<open>id IN (?, ..., ?)\<close> with the given ids (\<^verbatim>\<open>uint64\<close>, here
  \<open>nat\<close>) as arguments. \<^verbatim>\<open>strings.Repeat\<close> panics on the negative count that an empty list
  of ids gives.
\<close>

definition appendFiles :: "File list \<Rightarrow> nat list \<Rightarrow> Operation \<Rightarrow> File list outcome" where
  "appendFiles files ids op =
     (if int (length ids) - 1 < 0 then Panic
      else Return (files @ selectAll op (\<lambda>f. File_ID f \<in> set (map int ids)) (Files op)))"

text \<open>The \<^verbatim>\<open>for len(ids) > 1000\<close> loop of \<^verbatim>\<open>GetFilesByIDs\<close>; it returns \<^verbatim>\<open>files\<close> and \<^verbatim>\<open>ids\<close>
  as they are when the loop is left.\<close>

function GetFilesByIDs_loop :: "File list \<Rightarrow> nat list \<Rightarrow> Operation \<Rightarrow> (File list \<times> nat list) outcome" where
  "GetFilesByIDs_loop files ids op =
     (if length ids > 1000
      then (case appendFiles files (take 1000 ids) op of
              Panic \<Rightarrow> Panic
            | Return files' \<Rightarrow> GetFilesByIDs_loop files' (drop 1000 ids) op)
      else Return (files, ids))"
  by pat_completeness auto
termination
  by (relation "measure (\<lambda>(files, ids, op). length ids)") auto

declare GetFilesByIDs_loop.simps [simp del]

text \<open>The comparison function given to \<^verbatim>\<open>sort.Slice\<close>.\<close>

definition fileLess :: "File \<Rightarrow> File \<Rightarrow> bool" where
  "fileLess a b =
     (if File_Depth a \<noteq> File_Depth b then File_Depth a < File_Depth b
      else ToLower (File_PublicPath a) < ToLower (File_PublicPath b))"

text \<open>
  \<^verbatim>\<open>GetFilesByIDs\<close>. \<^verbatim>\<open>sort.Slice\<close> belongs to the standard library and is the parameter
  \<open>sortSlice\<close>. The error of \<^verbatim>\<open>PopulateCategories\<close> is dropped, as in the source.
\<close>

definition GetFilesByIDs :: "((File \<Rightarrow> File \<Rightarrow> bool) \<Rightarrow> File list \<Rightarrow> File list) \<Rightarrow> nat list \<Rightarrow> Operation \<Rightarrow> (File list \<times> error option) outcome" where
  "GetFilesByIDs sortSlice ids op =
     (case GetFilesByIDs_loop [] ids op of
        Panic \<Rightarrow> Panic
      | Return (files, ids') \<Rightarrow>
          (case (if length ids' > 0 then appendFiles files ids' op else Return files) of
             Panic \<Rightarrow> Panic
           | Return files' \<Rightarrow>
               (let sorted_files = sortSlice fileLess files';
                    (populated, _, _) = PopulateCategories sorted_files [] op
                in Return (populated, Err op))))"

text \<open>
  What \<^verbatim>\<open>sort.Slice\<close> promises for the comparison above: the slice is rearranged, and
  afterwards no element is less than an element before it. It promises no order among
  elements that compare equal.
\<close>

definition sortSlice_contract :: "((File \<Rightarrow> File \<Rightarrow> bool) \<Rightarrow> File list \<Rightarrow> File list) \<Rightarrow> bool" where
  "sortSlice_contract sortSlice \<longleftrightarrow>
     (\<forall>xs. mset (sortSlice fileLess xs) = mset xs
          \<and> sorted_wrt (\<lambda>a b. \<not> fileLess b a) (sortSlice fileLess xs))"

text \<open>
  The insertion sort that \<^verbatim>\<open>sort.Slice\<close> runs on a slice of at most 12 elements:
  \<^verbatim>\<open>for i := a + 1; i < b; i++ { for j := i; j > a && less(j, j-1); j-- { swap(j, j-1) } }\<close>.
  \<open>sink\<close> is the inner loop on the sorted part before position \<open>i\<close>, held in reverse.
\<close>

fun sink :: "('a \<Rightarrow> 'a \<Rightarrow> bool) \<Rightarrow> 'a \<Rightarrow> 'a list \<Rightarrow> 'a list" where
  "sink lt x [] = [x]"
| "sink lt x (y # ys) = (if lt x y then y # sink lt x ys else x # y # ys)"

definition insertionSort :: "('a \<Rightarrow> 'a \<Rightarrow> bool) \<Rightarrow> 'a list \<Rightarrow> 'a list" where
  "insertionSort lt xs = rev (foldl (\<lambda>sorted_part x. sink lt x sorted_part) [] xs)"

text \<open>The chunks of ids that \<^verbatim>\<open>GetFilesByIDs\<close> passes to \<^verbatim>\<open>appendFiles\<close>, in order: the
  slices the loop cuts off, then the rest if it is not empty.\<close>

function chunksOf :: "nat list \<Rightarrow> nat list list" where
  "chunksOf ids =
     (if length ids > 1000 then take 1000 ids # chunksOf (drop 1000 ids)
      else if length ids > 0 then [ids] else [])"
  by pat_completeness auto
termination
  by (relation "measure length") auto

declare chunksOf.simps [simp del]

text \<open>The rows one query of \<^verbatim>\<open>appendFiles\<close> returns, and the key the comparison function
  orders by: the depth, then the lower-cased public path.\<close>

definition filesWithIDs :: "Operation \<Rightarrow> nat list \<Rightarrow> File list" where
  "filesWithIDs op ids = selectAll op (\<lambda>f. File_ID f \<in> set (map int ids)) (Files op)"

definition fileKey :: "File \<Rightarrow> int \<times> string" where
  "fileKey f = (File_Depth f, ToLower (File_PublicPath f))"

text \<open>The map from ids to categories that \<^verbatim>\<open>PopulateCategories\<close> builds, a file with its category
  filled in from it, and the stored rows whose id is among the given ids.\<close>

definition categoryLookup :: "Operation \<Rightarrow> int \<rightharpoonup> Category" where
  "categoryLookup op = fold (\<lambda>c m. m(Category_ID c \<mapsto> c)) (fst (AllCategories op)) Map.empty"

definition populated :: "Operation \<Rightarrow> File \<Rightarrow> File" where
  "populated op f = f\<lparr>File_Category := categoryLookup op (File_CategoryID f)\<rparr>"


section \<open>Searching\<close>

text \<open>
  Modelled from the spec: the select type of package \<^verbatim>\<open>db\<close> (\<^verbatim>\<open>FileSelect\<close>,
  \<^verbatim>\<open>FolderSelect\<close>, \<^verbatim>\<open>TreeMode\<close>, \<^verbatim>\<open>Search\<close>, \<^verbatim>\<open>Limit\<close>, \<^verbatim>\<open>AllObjects\<close>), which is not part of
  the sources at hand. Following the specification, a select without tree mode lists the
  immediate children of the folder (a missing folder means top level), a select in tree
  mode the descendants in the subtree under the folder (the whole category if none is
  given), a search term is matched as a substring, and \<^verbatim>\<open>AllObjects\<close> returns the result
  capped at the limit together with the number of all matches.
\<close>

record Select =
  sel_category :: Category
  sel_folder :: "Folder option"
  sel_treeMode :: bool
  sel_term :: "string option"
  sel_limit :: "nat option"

definition newSelect :: "Category \<Rightarrow> Folder option \<Rightarrow> Select" where
  "newSelect c f = \<lparr>sel_category = c, sel_folder = f, sel_treeMode = False, sel_term = None, sel_limit = None\<rparr>"

definition TreeMode :: "bool \<Rightarrow> Select \<Rightarrow> Select" where
  "TreeMode b s = s\<lparr>sel_treeMode := b\<rparr>"

definition Search :: "string \<Rightarrow> Select \<Rightarrow> Select" where
  "Search term s = s\<lparr>sel_term := Some term\<rparr>"

definition Limit :: "nat \<Rightarrow> Select \<Rightarrow> Select" where
  "Limit n s = s\<lparr>sel_limit := Some n\<rparr>"

fun contains :: "string \<Rightarrow> string \<Rightarrow> bool" where
  "contains [] term = (term = [])"
| "contains (c # cs) term = (prefix term (c # cs) \<or> contains cs term)"

definition inScope :: "Select \<Rightarrow> int \<Rightarrow> int \<Rightarrow> string \<Rightarrow> bool" where
  "inScope s categoryID folderID publicPath \<longleftrightarrow>
     categoryID = Category_ID (sel_category s) \<and>
     (if sel_treeMode s
      then (case sel_folder s of
              None \<Rightarrow> True
            | Some root \<Rightarrow> prefix (Folder_PublicPath root @ [PathSeparator]) publicPath)
      else folderID = (case sel_folder s of None \<Rightarrow> 0 | Some p \<Rightarrow> Folder_ID p))"

definition matchesTerm :: "Select \<Rightarrow> string \<Rightarrow> bool" where
  "matchesTerm s field = (case sel_term s of None \<Rightarrow> True | Some term \<Rightarrow> contains field term)"

definition capped :: "Select \<Rightarrow> 'r list \<Rightarrow> 'r list" where
  "capped s rows = (case sel_limit s of None \<Rightarrow> rows | Some n \<Rightarrow> take n rows)"

definition fileMatches :: "Select \<Rightarrow> File \<Rightarrow> bool" where
  "fileMatches s f \<longleftrightarrow>
     inScope s (File_CategoryID f) (File_FolderID f) (File_PublicPath f) \<and> matchesTerm s (File_PublicPath f)"

definition folderMatches :: "Select \<Rightarrow> Folder \<Rightarrow> bool" where
  "folderMatches s f \<longleftrightarrow>
     inScope s (Folder_CategoryID f) (Folder_FolderID f) (Folder_PublicPath f) \<and> matchesTerm s (Folder_Name f)"

definition Files_AllObjects :: "Select \<Rightarrow> Operation \<Rightarrow> File list \<times> nat \<times> error option" where
  "Files_AllObjects s op =
     (let found = selectAll op (fileMatches s) (Files op)
      in (capped s found, length found, Err op))"

definition Folders_AllObjects :: "Select \<Rightarrow> Operation \<Rightarrow> Folder list \<times> nat \<times> error option" where
  "Folders_AllObjects s op =
     (let found = selectAll op (folderMatches s) (Folders op)
      in (capped s found, length found, Err op))"

text \<open>\<^verbatim>\<open>SearchFiles\<close> and \<^verbatim>\<open>SearchFolders\<close>, as \<^verbatim>\<open>db.go\<close> builds them from the select.\<close>

definition SearchFiles :: "Category \<Rightarrow> Folder option \<Rightarrow> string \<Rightarrow> nat \<Rightarrow> Operation \<Rightarrow> File list \<times> nat \<times> error option" where
  "SearchFiles category folder term limit op =
     (let sel = Limit limit (Search term (TreeMode True (newSelect category folder)))
      in Files_AllObjects sel op)"

definition SearchFolders :: "Category \<Rightarrow> Folder option \<Rightarrow> string \<Rightarrow> nat \<Rightarrow> Operation \<Rightarrow> Folder list \<times> nat \<times> error option" where
  "SearchFolders category folder term limit op =
     (let sel = Limit limit (Search term (TreeMode True (newSelect category folder)))
      in Folders_AllObjects sel op)"

text \<open>The select that \<^verbatim>\<open>SearchFiles\<close> and \<^verbatim>\<open>SearchFolders\<close> build, before the limit.\<close>

definition searchSelect :: "Category \<Rightarrow> Folder option \<Rightarrow> string \<Rightarrow> Select" where
  "searchSelect category folder term = Search term (TreeMode True (newSelect category folder))"

section \<open>Example values\<close>

definition emptyOperation :: Operation where
  "emptyOperation = \<lparr>Err = None, Files = [], Folders = [], RealFolders = [], Categories = [], ArchiveJobs = []\<rparr>"

definition exampleAddress :: Address where
  "exampleAddress = \<lparr>Address_Name = ''Ann'', Address_Address = ''ann@example.org''\<rparr>"

definition exampleAddrString :: "Address \<Rightarrow> string" where
  "exampleAddrString a = ''<'' @ Address_Address a @ ''>''"

definition exampleFile :: File where
  "exampleFile = \<lparr>File_ID = 1, File_Category = None, File_CategoryID = 1, File_FolderID = 0,
     File_Depth = 0, File_PublicPath = ''a.tif'', File_FullPath = ''/vol/p/a.tif''\<rparr>"

definition exampleJobA :: ArchiveJob where
  "exampleJobA = \<lparr>ArchiveJob_ID = 1, ArchiveJob_CreatedAt = 10, ArchiveJob_NextAttemptAt = 100,
     ArchiveJob_Files = ''/vol/p/a.tif'', ArchiveJob_NotificationEmails = ''<ann@example.org>'',
     ArchiveJob_Processed = False\<rparr>"

definition exampleJobB :: ArchiveJob where
  "exampleJobB = \<lparr>ArchiveJob_ID = 2, ArchiveJob_CreatedAt = 30, ArchiveJob_NextAttemptAt = 0,
     ArchiveJob_Files = ''/vol/p/b.tif'', ArchiveJob_NotificationEmails = ''<ann@example.org>'',
     ArchiveJob_Processed = False\<rparr>"

definition exampleQueue :: Operation where
  "exampleQueue = emptyOperation\<lparr>ArchiveJobs := [exampleJobA, exampleJobB]\<rparr>"

definition exampleCategory :: Category where
  "exampleCategory = \<lparr>Category_ID = 1, Category_Name = ''ProjectX''\<rparr>"

definition exampleUnsavedFolder :: Folder where
  "exampleUnsavedFolder = MkFolder 0 None 0 (Some exampleCategory) 1 0 ''2020-01-01'' ''2020-01-01''"

definition exampleFolderA :: Folder where
  "exampleFolderA = MkFolder 1 None 0 None 1 0 ''2020-01-01'' ''2020-01-01''"

definition exampleFolderB :: Folder where
  "exampleFolderB = MkFolder 2 None 0 None 1 0 ''2020-01-02'' ''2020-01-02''"

definition exampleFolderSub :: Folder where
  "exampleFolderSub = MkFolder 3 None 1 None 1 1 ''2020-01-01/sub'' ''sub''"

definition exampleRealFolder :: RealFolder where
  "exampleRealFolder = \<lparr>RealFolder_ID = 1, RealFolder_Folder = None, RealFolder_FolderID = 1,
     RealFolder_FullPath = ''/vol/ProjectX/2020-01-01''\<rparr>"

definition exampleCatalog :: Operation where
  "exampleCatalog = emptyOperation\<lparr>Categories := [exampleCategory],
     Folders := [exampleFolderA, exampleFolderB, exampleFolderSub],
     RealFolders := [exampleRealFolder]\<rparr>"

definition exampleFileA :: File where
  "exampleFileA = \<lparr>File_ID = 1, File_Category = None, File_CategoryID = 1, File_FolderID = 1,
     File_Depth = 1, File_PublicPath = ''2020-01-01/a.tif'', File_FullPath = ''/vol/ProjectX/2020-01-01/a.tif''\<rparr>"

definition exampleFileB :: File where
  "exampleFileB = \<lparr>File_ID = 2, File_Category = None, File_CategoryID = 1, File_FolderID = 3,
     File_Depth = 2, File_PublicPath = ''2020-01-01/sub/b.tif'', File_FullPath = ''/vol/ProjectX/2020-01-01/sub/b.tif''\<rparr>"

definition exampleFileC :: File where
  "exampleFileC = \<lparr>File_ID = 3, File_Category = None, File_CategoryID = 1, File_FolderID = 2,
     File_Depth = 1, File_PublicPath = ''2020-01-02/c.tif'', File_FullPath = ''/vol/ProjectX/2020-01-02/c.tif''\<rparr>"

definition exampleLibrary :: Operation where
  "exampleLibrary = exampleCatalog\<lparr>Files := [exampleFileA, exampleFileB, exampleFileC]\<rparr>"

definition exampleReadme :: File where
  "exampleReadme = \<lparr>File_ID = 3, File_Category = None, File_CategoryID = 1, File_FolderID = 0,
     File_Depth = 0, File_PublicPath = ''README'', File_FullPath = ''/vol/ProjectX/README''\<rparr>"

definition exampleReadmeLower :: File where
  "exampleReadmeLower = \<lparr>File_ID = 4, File_Category = None, File_CategoryID = 1, File_FolderID = 0,
     File_Depth = 0, File_PublicPath = ''readme'', File_FullPath = ''/vol/ProjectX/readme''\<rparr>"

definition exampleTies :: Operation where
  "exampleTies = exampleCatalog\<lparr>Files := [exampleReadme, exampleReadmeLower]\<rparr>"

definition exampleOtherIDs :: "nat list" where
  "exampleOtherIDs = [10..<1009]"

definition exampleIDsForward :: "nat list" where
  "exampleIDsForward = 3 # exampleOtherIDs @ [4]"

definition exampleIDsBackward :: "nat list" where
  "exampleIDsBackward = 4 # exampleOtherIDs @ [3]"

definition exampleIDsRepeated :: "nat list" where
  "exampleIDsRepeated = 3 # exampleOtherIDs @ [3]"



section \<open>Selecting and processing archive jobs\<close>














lemma ArchiveJobs_Save_Err:
  "Err (snd (ArchiveJobs_Save j op)) = Err op"
  by (simp add: ArchiveJobs_Save_def saveRow_def Let_def)
















section \<open>Enqueueing\<close>

text \<open>
  C2 (as the code has it). An enqueue with a file list and an address list that are not
  empty, on an operation without an error, returns no error and appends exactly one row to
  the table of archive jobs: its id is the next row id, \<^verbatim>\<open>created_at\<close> is the current time,
  \<^verbatim>\<open>next_attempt_at\<close> is the zero time (not the current time), \<^verbatim>\<open>processed\<close> is false,
  \<^verbatim>\<open>files\<close> is the full paths of the given files, in order, joined by the byte 0x1E, and
  \<^verbatim>\<open>notification_emails\<close> is the strings of the given addresses, in order, joined by a
  comma. The new job is due at every time after the zero time.
\<close>

theorem QueueArchiveJob_persists_job:
  assumes "Err op = None" "files \<noteq> []" "addrs \<noteq> []"
  shows "\<exists>j. QueueArchiveJob addrString now addrs files op = (None, op\<lparr>ArchiveJobs := ArchiveJobs op @ [j]\<rparr>)
     \<and> j = \<lparr>ArchiveJob_ID = nextID (map ArchiveJob_ID (ArchiveJobs op)),
             ArchiveJob_CreatedAt = now,
             ArchiveJob_NextAttemptAt = zeroTime,
             ArchiveJob_Files = Join (map File_FullPath files) [CHR 0x1E],
             ArchiveJob_NotificationEmails = Join (map addrString addrs) '','',
             ArchiveJob_Processed = False\<rparr>
     \<and> (\<forall>t. readyJob t j \<longleftrightarrow> zeroTime < t)"
  using assms
  by (simp add: QueueArchiveJob_def ArchiveJobs_Save_def saveRow_def Let_def readyJob_def)

theorem QueueArchiveJob_persists_job_witness:
  "Err emptyOperation = None \<and> [exampleFile, exampleFile] \<noteq> [] \<and> [exampleAddress] \<noteq> []
   \<and> QueueArchiveJob exampleAddrString 1000 [exampleAddress] [exampleFile, exampleFile] emptyOperation
       = (None, emptyOperation\<lparr>ArchiveJobs :=
            [\<lparr>ArchiveJob_ID = 1, ArchiveJob_CreatedAt = 1000, ArchiveJob_NextAttemptAt = 0,
              ArchiveJob_Files = ''/vol/p/a.tif'' @ [CHR 0x1E] @ ''/vol/p/a.tif'',
              ArchiveJob_NotificationEmails = ''<ann@example.org>'',
              ArchiveJob_Processed = False\<rparr>]\<rparr>)"
proof -
  have e: "Err emptyOperation = None"
    by (simp add: emptyOperation_def)
  from QueueArchiveJob_persists_job[OF e, of "[exampleFile, exampleFile]" "[exampleAddress]" exampleAddrString 1000]
  show ?thesis
    by (simp add: emptyOperation_def nextID_def zeroTime_def exampleFile_def exampleAddress_def
        exampleAddrString_def)
qed

theorem QueueArchiveJob_persists_job_counterexample:
  "map ArchiveJob_NextAttemptAt
     (ArchiveJobs (snd (QueueArchiveJob exampleAddrString 1000 [exampleAddress] [exampleFile] emptyOperation)))
     = [0]
   \<and> map ArchiveJob_CreatedAt
     (ArchiveJobs (snd (QueueArchiveJob exampleAddrString 1000 [exampleAddress] [exampleFile] emptyOperation)))
     = [1000]"
  by (simp add: QueueArchiveJob_def ArchiveJobs_Save_def saveRow_def Let_def emptyOperation_def
      zeroTime_def)

text \<open>
  C7. An enqueue whose file list or whose address list is empty returns an error (the
  one of the empty file list first) and leaves the operation, and with it the table of
  archive jobs, as it was.
\<close>

theorem QueueArchiveJob_empty_rejected:
  "files = [] \<or> addrs = [] \<Longrightarrow>
   fst (QueueArchiveJob addrString now addrs files op)
     = Some (if files = [] then NoFilesToArchive else NoNotificationAddresses)
   \<and> snd (QueueArchiveJob addrString now addrs files op) = op"
  by (auto simp: QueueArchiveJob_def)

theorem QueueArchiveJob_empty_rejected_witness:
  "QueueArchiveJob exampleAddrString 1000 [] [exampleFile] exampleQueue = (Some NoNotificationAddresses, exampleQueue)
   \<and> QueueArchiveJob exampleAddrString 1000 [exampleAddress] [] exampleQueue = (Some NoFilesToArchive, exampleQueue)
   \<and> QueueArchiveJob exampleAddrString 1000 [] [] exampleQueue = (Some NoFilesToArchive, exampleQueue)"
  using QueueArchiveJob_empty_rejected[of "[exampleFile]" "[]" exampleAddrString 1000 exampleQueue]
    QueueArchiveJob_empty_rejected[of "[]" "[exampleAddress]" exampleAddrString 1000 exampleQueue]
    QueueArchiveJob_empty_rejected[of "[]" "[]" exampleAddrString 1000 exampleQueue]
  by (simp add: prod_eq_iff)

section \<open>Finding or creating categories, folders and real folders\<close>


lemma find_filter_Nil: "find P rows = None \<longleftrightarrow> filter P rows = []"
  by (induction rows) auto

lemma Folder_rebuild:
  "MkFolder (Folder_ID (stripFolder r)) f (Folder_FolderID (stripFolder r)) c
     (Folder_CategoryID (stripFolder r)) (Folder_Depth (stripFolder r))
     (Folder_PublicPath (stripFolder r)) (Folder_Name (stripFolder r))
   = MkFolder (Folder_ID r) f (Folder_FolderID r) c (Folder_CategoryID r) (Folder_Depth r)
       (Folder_PublicPath r) (Folder_Name r)"
  by (simp add: stripFolder_def)





lemma FindOrCreateFolder_failed:
  "Err op \<noteq> None \<Longrightarrow> FindOrCreateFolder c f path op = ((None, Err op), op)"
  by (auto simp: FindOrCreateFolder_def FindFolderByPath_def selectFirst_def)

lemma FindOrCreateFolder_found:
  "Err op = None \<Longrightarrow> find (folderKey c path) (Folders op) = Some r \<Longrightarrow>
   FindOrCreateFolder c f path op =
     (if Folder_FolderID r \<noteq> parentID f then ((None, Some DifferentParentFound), op)
      else ((Some (MkFolder (Folder_ID r) f (Folder_FolderID r) (Some c) (Folder_CategoryID r)
                     (Folder_Depth r) (Folder_PublicPath r) (Folder_Name r)), None), op))"
  by (simp add: FindOrCreateFolder_def FindFolderByPath_def selectFirst_def parentID_def folderKey_def)

lemma FindOrCreateFolder_new:
  "Err op = None \<Longrightarrow> find (folderKey c path) (Folders op) = None \<Longrightarrow>
   FindOrCreateFolder c f path op =
     (let r = MkFolder (nextID (map Folder_ID (Folders op))) f (parentID f) (Some c) (Category_ID c)
                (Count path PathSeparator) path (snd (Split path))
      in ((Some r, None), op\<lparr>Folders := Folders op @ [stripFolder r]\<rparr>))"
  by (simp add: FindOrCreateFolder_def FindFolderByPath_def selectFirst_def parentID_def folderKey_def
      Folders_Save_def saveRow_def Let_def setFolderID_def)


lemma FindOrCreateRealFolder_nil:
  "FindOrCreateRealFolder None path op = Panic"
  by (simp add: FindOrCreateRealFolder_def FindRealFolderByPath_def)

lemma FindOrCreateRealFolder_failed:
  "Err op \<noteq> None \<Longrightarrow> FindOrCreateRealFolder (Some p) path op = Return ((None, Err op), op)"
  by (auto simp: FindOrCreateRealFolder_def FindRealFolderByPath_def selectFirst_def)

lemma find_Some_holds: "find P rows = Some r \<Longrightarrow> P r \<and> r \<in> set rows"
  by (induction rows) (auto split: if_splits)

lemma FindOrCreateRealFolder_found:
  assumes "Err op = None" "find (realFolderKey p path) (RealFolders op) = Some r"
  shows "FindOrCreateRealFolder (Some p) path op = Return ((Some (r\<lparr>RealFolder_Folder := Some p\<rparr>), None), op)"
proof -
  from find_Some_holds[OF assms(2)] have "RealFolder_FolderID r = Folder_ID p"
    by (simp add: realFolderKey_def)
  with assms show ?thesis
    by (simp add: FindOrCreateRealFolder_def FindRealFolderByPath_def selectFirst_def realFolderKey_def)
qed

lemma FindOrCreateRealFolder_new:
  "Err op = None \<Longrightarrow> find (realFolderKey p path) (RealFolders op) = None \<Longrightarrow>
   FindOrCreateRealFolder (Some p) path op =
     (let r = \<lparr>RealFolder_ID = nextID (map RealFolder_ID (RealFolders op)), RealFolder_Folder = Some p,
                RealFolder_FolderID = Folder_ID p, RealFolder_FullPath = path\<rparr>
      in Return ((Some r, None), op\<lparr>RealFolders := RealFolders op @ [r\<lparr>RealFolder_Folder := None\<rparr>]\<rparr>))"
  by (simp add: FindOrCreateRealFolder_def FindRealFolderByPath_def selectFirst_def realFolderKey_def
      RealFolders_Save_def saveRow_def Let_def)


lemma find_Some_filter: "find P rows = Some r \<Longrightarrow> 1 \<le> length (filter P rows)"
  by (induction rows) (auto split: if_splits)



lemma FindOrCreateRealFolder_result:
  assumes e: "Err op = None"
  shows "\<exists>r op1. FindOrCreateRealFolder (Some p) path op = Return ((Some r, None), op1)
           \<and> realFolderKey p path r
           \<and> length (filter (realFolderKey p path) (RealFolders op1))
               = max 1 (length (filter (realFolderKey p path) (RealFolders op)))"
proof (cases "find (realFolderKey p path) (RealFolders op)")
  case (Some r)
  from find_Some_holds[OF Some] find_Some_filter[OF Some] show ?thesis
    by (simp add: FindOrCreateRealFolder_found[OF e Some] realFolderKey_def)
next
  case None
  then have "filter (realFolderKey p path) (RealFolders op) = []"
    by (simp add: find_filter_Nil)
  then show ?thesis
    by (simp add: FindOrCreateRealFolder_new[OF e None] Let_def) (simp add: realFolderKey_def)
qed


lemma FindOrCreateFolder_conflict:
  assumes "Err op = None" "find (folderKey c path) (Folders op) = Some r" "Folder_FolderID r \<noteq> parentID f"
  shows "FindOrCreateFolder c f path op = ((None, Some DifferentParentFound), op)"
  using assms by (simp add: FindOrCreateFolder_found)

lemma FindOrCreateRealFolder_never_conflict:
  assumes "Err op = None"
  shows "FindOrCreateRealFolder f path op \<noteq> Return ((r, Some DifferentFolderFound), op1)"
proof (cases f)
  case None
  then show ?thesis by (simp add: FindOrCreateRealFolder_nil)
next
  case (Some p)
  from FindOrCreateRealFolder_result[OF assms, of p path] show ?thesis
    unfolding Some by auto
qed

lemma exampleCatalog_simps:
  "Err exampleCatalog = None"
  "Categories exampleCatalog = [exampleCategory]"
  "Folders exampleCatalog = [exampleFolderA, exampleFolderB, exampleFolderSub]"
  "RealFolders exampleCatalog = [exampleRealFolder]"
  by (simp_all add: exampleCatalog_def emptyOperation_def)


text \<open>
  C4, at an input where the code departs from it. The real folder
  \<^verbatim>\<open>/vol/ProjectX/2020-01-01\<close> is stored under the folder of id 1. Asked for the same full
  path under the folder of id 2, \<^verbatim>\<open>FindOrCreateRealFolder\<close> returns no error: it inserts a
  second row for the path, under the other folder.
\<close>

theorem FindOrCreateRealFolder_other_folder_inserts:
  "RealFolders exampleCatalog = [exampleRealFolder]
   \<and> RealFolder_FullPath exampleRealFolder = ''/vol/ProjectX/2020-01-01''
   \<and> RealFolder_FolderID exampleRealFolder = 1
   \<and> Folder_ID exampleFolderB = 2
   \<and> FindOrCreateRealFolder (Some exampleFolderB) ''/vol/ProjectX/2020-01-01'' exampleCatalog
       = Return ((Some \<lparr>RealFolder_ID = 2, RealFolder_Folder = Some exampleFolderB, RealFolder_FolderID = 2,
                         RealFolder_FullPath = ''/vol/ProjectX/2020-01-01''\<rparr>, None),
                 exampleCatalog\<lparr>RealFolders := [exampleRealFolder,
                       \<lparr>RealFolder_ID = 2, RealFolder_Folder = None, RealFolder_FolderID = 2,
                         RealFolder_FullPath = ''/vol/ProjectX/2020-01-01''\<rparr>]\<rparr>)"
proof -
  have "find (realFolderKey exampleFolderB ''/vol/ProjectX/2020-01-01'') (RealFolders exampleCatalog) = None"
    by (simp add: exampleCatalog_simps realFolderKey_def exampleRealFolder_def exampleFolderB_def)
  from FindOrCreateRealFolder_new[OF exampleCatalog_simps(1) this] show ?thesis
    by (simp add: exampleCatalog_simps nextID_def Let_def exampleRealFolder_def exampleFolderB_def)
qed

text \<open>
  C9 (as the code has it). A folder found or created without a parent and one found or
  created under a parent whose id is 0 have the same parent key, 0: the two calls leave
  the same operation behind (the same row is stored, or none), return the same error, and
  return records that agree in every column; only the parent pointer kept in memory
  differs. A real folder found or created under a folder whose id is 0 has folder key 0.
\<close>

theorem FindOrCreateFolder_no_parent_is_parent_zero:
  assumes "Folder_ID p = 0"
  shows "snd (FindOrCreateFolder c (Some p) path op) = snd (FindOrCreateFolder c None path op)
     \<and> snd (fst (FindOrCreateFolder c (Some p) path op)) = snd (fst (FindOrCreateFolder c None path op))
     \<and> map_option stripFolder (fst (fst (FindOrCreateFolder c (Some p) path op)))
         = map_option stripFolder (fst (fst (FindOrCreateFolder c None path op)))
     \<and> (\<forall>r e op1. FindOrCreateRealFolder (Some p) full op = Return ((Some r, e), op1)
           \<longrightarrow> RealFolder_FolderID r = 0)"
proof -
  have pid: "parentID (Some p) = parentID None"
    using assms by (simp add: parentID_def)
  have folders: "snd (FindOrCreateFolder c (Some p) path op) = snd (FindOrCreateFolder c None path op)
     \<and> snd (fst (FindOrCreateFolder c (Some p) path op)) = snd (fst (FindOrCreateFolder c None path op))
     \<and> map_option stripFolder (fst (fst (FindOrCreateFolder c (Some p) path op)))
         = map_option stripFolder (fst (fst (FindOrCreateFolder c None path op)))"
  proof (cases "Err op = None")
    case False
    then show ?thesis by (simp add: FindOrCreateFolder_failed)
  next
    case e: True
    show ?thesis
    proof (cases "find (folderKey c path) (Folders op)")
      case (Some r)
      show ?thesis
        by (simp add: FindOrCreateFolder_found[OF e Some] pid stripFolder_def)
    next
      case None
      show ?thesis
        by (simp add: FindOrCreateFolder_new[OF e None] pid Let_def stripFolder_def)
    qed
  qed
  have real: "RealFolder_FolderID r = 0"
    if "FindOrCreateRealFolder (Some p) full op = Return ((Some r, e), op1)" for r e op1
  proof (cases "Err op = None")
    case False
    with that show ?thesis by (simp add: FindOrCreateRealFolder_failed)
  next
    case e: True
    show ?thesis
    proof (cases "find (realFolderKey p full) (RealFolders op)")
      case (Some r')
      from find_Some_holds[OF Some] that assms show ?thesis
        by (auto simp: FindOrCreateRealFolder_found[OF e Some] realFolderKey_def)
    next
      case None
      from that assms show ?thesis
        by (auto simp: FindOrCreateRealFolder_new[OF e None] Let_def)
    qed
  qed
  from folders real show ?thesis by blast
qed

theorem FindOrCreateFolder_no_parent_is_parent_zero_counterexample:
  "Folders exampleCatalog = [exampleFolderA, exampleFolderB, exampleFolderSub]
   \<and> FindOrCreateFolder exampleCategory None ''2020-01-01'' exampleCatalog
       = ((Some (MkFolder 1 None 0 (Some exampleCategory) 1 0 ''2020-01-01'' ''2020-01-01''), None),
          exampleCatalog)
   \<and> Folder_ID exampleUnsavedFolder = 0
   \<and> FindOrCreateFolder exampleCategory (Some exampleUnsavedFolder) ''2020-01-01'' exampleCatalog
       = ((Some (MkFolder 1 (Some exampleUnsavedFolder) 0 (Some exampleCategory) 1 0 ''2020-01-01'' ''2020-01-01''), None),
          exampleCatalog)"
proof -
  have "find (folderKey exampleCategory ''2020-01-01'') (Folders exampleCatalog) = Some exampleFolderA"
    by (simp add: exampleCatalog_simps folderKey_def exampleFolderA_def exampleCategory_def)
  from FindOrCreateFolder_found[OF exampleCatalog_simps(1) this, of None]
    FindOrCreateFolder_found[OF exampleCatalog_simps(1) this, of "Some exampleUnsavedFolder"]
  show ?thesis
    by (simp add: exampleCatalog_simps parentID_def exampleFolderA_def exampleUnsavedFolder_def)
qed

theorem FindOrCreateFolder_no_parent_is_parent_zero_witness:
  "Folder_ID exampleUnsavedFolder = 0
   \<and> snd (FindOrCreateFolder exampleCategory (Some exampleUnsavedFolder) ''2020-01-03'' exampleCatalog)
       = exampleCatalog\<lparr>Folders := [exampleFolderA, exampleFolderB, exampleFolderSub,
            MkFolder 4 None 0 None 1 0 ''2020-01-03'' ''2020-01-03'']\<rparr>
   \<and> snd (FindOrCreateFolder exampleCategory None ''2020-01-03'' exampleCatalog)
       = exampleCatalog\<lparr>Folders := [exampleFolderA, exampleFolderB, exampleFolderSub,
            MkFolder 4 None 0 None 1 0 ''2020-01-03'' ''2020-01-03'']\<rparr>"
proof -
  have z: "Folder_ID exampleUnsavedFolder = 0"
    by (simp add: exampleUnsavedFolder_def)
  have "snd (FindOrCreateFolder exampleCategory None ''2020-01-03'' exampleCatalog)
       = exampleCatalog\<lparr>Folders := [exampleFolderA, exampleFolderB, exampleFolderSub,
            MkFolder 4 None 0 None 1 0 ''2020-01-03'' ''2020-01-03'']\<rparr>"
  proof -
    have "find (folderKey exampleCategory ''2020-01-03'') (Folders exampleCatalog) = None"
      by (simp add: exampleCatalog_simps folderKey_def exampleFolderA_def exampleFolderB_def exampleFolderSub_def)
    from FindOrCreateFolder_new[OF exampleCatalog_simps(1) this, of None] show ?thesis
      by (simp add: exampleCatalog_simps nextID_def Let_def parentID_def Count_def Split_def PathSeparator_def
          stripFolder_def exampleCategory_def exampleFolderA_def exampleFolderB_def exampleFolderSub_def)
  qed
  with FindOrCreateFolder_no_parent_is_parent_zero[OF z, of exampleCategory "''2020-01-03''" exampleCatalog] z
  show ?thesis by simp
qed

section \<open>Fetching files by id: chunks, order and repetitions\<close>

lemma fileLess_key: "fileLess a b \<longleftrightarrow> fileKey a < fileKey b"
  by (auto simp: fileLess_def fileKey_def less_prod_def)

lemma mset_sink: "mset (sink lt x ys) = add_mset x (mset ys)"
  by (induction ys) auto

lemma set_sink: "set (sink lt x ys) = insert x (set ys)"
  by (induction ys) auto

lemma sorted_sink:
  fixes k :: "'a \<Rightarrow> 'k::linorder"
  shows "sorted (rev (map k ys)) \<Longrightarrow> sorted (rev (map k (sink (\<lambda>a b. k a < k b) x ys)))"
proof (induction ys)
  case Nil
  then show ?case by simp
next
  case (Cons y ys)
  then show ?case
    by (auto simp: sorted_append set_sink)
qed

lemma mset_foldl_sink: "mset (foldl (\<lambda>acc x. sink lt x acc) acc xs) = mset acc + mset xs"
  by (induction xs arbitrary: acc) (simp_all add: mset_sink)

lemma sorted_foldl_sink:
  fixes k :: "'a \<Rightarrow> 'k::linorder"
  shows "sorted (rev (map k acc)) \<Longrightarrow>
    sorted (rev (map k (foldl (\<lambda>acc x. sink (\<lambda>a b. k a < k b) x acc) acc xs)))"
  by (induction xs arbitrary: acc) (simp_all add: sorted_sink)

lemma mset_insertionSort: "mset (insertionSort lt xs) = mset xs"
  by (simp add: insertionSort_def mset_foldl_sink)

lemma sorted_insertionSort:
  fixes k :: "'a \<Rightarrow> 'k::linorder"
  shows "sorted (map k (insertionSort (\<lambda>a b. k a < k b) xs))"
  using sorted_foldl_sink[of k "[]" xs] by (simp add: insertionSort_def rev_map)

lemma sorted_wrt_fileLess: "sorted_wrt (\<lambda>a b. \<not> fileLess b a) xs \<longleftrightarrow> sorted (map fileKey xs)"
  by (simp add: sorted_map fileLess_key not_less)

lemma fileLess_eq: "fileLess = (\<lambda>a b. fileKey a < fileKey b)"
  by (simp add: fun_eq_iff fileLess_key)

lemma insertionSort_contract: "sortSlice_contract insertionSort"
  unfolding sortSlice_contract_def sorted_wrt_fileLess
  by (simp add: mset_insertionSort) (simp add: fileLess_eq sorted_insertionSort)

lemma appendFiles_Return:
  "ids \<noteq> [] \<Longrightarrow> appendFiles files ids op = Return (files @ filesWithIDs op ids)"
  by (cases ids) (simp_all add: appendFiles_def filesWithIDs_def)

lemma appendFiles_Nil: "appendFiles files [] op = Panic"
  by (simp add: appendFiles_def)

lemma chunksOf_long:
  "length ids > 1000 \<Longrightarrow> chunksOf ids = take 1000 ids # chunksOf (drop 1000 ids)"
  by (subst chunksOf.simps) simp

lemma chunksOf_short:
  "\<not> length ids > 1000 \<Longrightarrow> chunksOf ids = (if length ids > 0 then [ids] else [])"
  by (subst chunksOf.simps) simp

lemma GetFilesByIDs_loop_chunks:
  "\<exists>fs ids'. GetFilesByIDs_loop files ids op = Return (fs, ids')
     \<and> (if length ids' > 0 then appendFiles fs ids' op else Return fs)
         = Return (files @ concat (map (filesWithIDs op) (chunksOf ids)))"
proof (induction files ids op rule: GetFilesByIDs_loop.induct)
  case (1 files ids op)
  show ?case
  proof (cases "length ids > 1000")
    case True
    then have ne: "take 1000 ids \<noteq> []" by auto
    note a = appendFiles_Return[OF ne, of files op]
    from "1.IH"[OF True a] obtain fs ids' where
      l: "GetFilesByIDs_loop (files @ filesWithIDs op (take 1000 ids)) (drop 1000 ids) op = Return (fs, ids')"
      and r: "(if length ids' > 0 then appendFiles fs ids' op else Return fs)
         = Return ((files @ filesWithIDs op (take 1000 ids)) @ concat (map (filesWithIDs op) (chunksOf (drop 1000 ids))))"
      by blast
    have "GetFilesByIDs_loop files ids op = Return (fs, ids')"
      by (subst GetFilesByIDs_loop.simps) (simp add: True a l)
    with r show ?thesis
      by (simp add: chunksOf_long[OF True])
  next
    case False
    have "GetFilesByIDs_loop files ids op = Return (files, ids)"
      by (subst GetFilesByIDs_loop.simps) (simp add: False)
    then show ?thesis
      by (simp add: chunksOf_short[OF False] appendFiles_Return)
  qed
qed

lemma GetFilesByIDs_eq:
  "GetFilesByIDs sortSlice ids op =
     Return (fst (PopulateCategories (sortSlice fileLess (concat (map (filesWithIDs op) (chunksOf ids)))) [] op),
             Err op)"
proof -
  from GetFilesByIDs_loop_chunks[of "[]" ids op] obtain fs ids' where
    l: "GetFilesByIDs_loop [] ids op = Return (fs, ids')" and
    r: "(if length ids' > 0 then appendFiles fs ids' op else Return fs)
         = Return ([] @ concat (map (filesWithIDs op) (chunksOf ids)))"
    by blast
  show ?thesis
    unfolding GetFilesByIDs_def l outcome.case prod.case r
    by (simp add: Let_def split_beta)
qed







lemma fetched_failed:
  "Err op \<noteq> None \<Longrightarrow> concat (map (filesWithIDs op) (chunksOf ids)) = []"
  by (simp add: filesWithIDs_def selectAll_def)

lemma PopulateCategories_files:
  "Err op = None \<Longrightarrow> fst (PopulateCategories files [] op) = map (populated op) files"
  by (simp add: PopulateCategories_def AllCategories_def Let_def populated_def categoryLookup_def)





lemma contract_mset:
  "sortSlice_contract sortSlice \<Longrightarrow> mset (sortSlice fileLess xs) = mset xs"
  by (simp add: sortSlice_contract_def)







lemma chunksOf_two:
  assumes "length c = 1000" "0 < length r" "length r \<le> 1000"
  shows "chunksOf (c @ r) = [c, r]"
proof -
  have l: "length (c @ r) > 1000" using assms by simp
  have s: "\<not> length r > 1000" using assms by simp
  show ?thesis
    unfolding chunksOf_long[OF l] using assms by (simp add: chunksOf_short[OF s])
qed

lemma exampleTies_simps:
  "Err exampleTies = None"
  "Files exampleTies = [exampleReadme, exampleReadmeLower]"
  "Categories exampleTies = [exampleCategory]"
  by (simp_all add: exampleTies_def exampleCatalog_def emptyOperation_def)

lemma exampleTies_populated:
  "populated exampleTies f = f\<lparr>File_Category := (if File_CategoryID f = 1 then Some exampleCategory else None)\<rparr>"
  by (simp add: populated_def categoryLookup_def AllCategories_def selectAll_def exampleTies_simps
      exampleCategory_def)

lemma exampleOtherIDs_simps:
  "length exampleOtherIDs = 999"
  "set exampleOtherIDs = {10..<1009}"
  "distinct exampleOtherIDs"
proof -
  have "length [10..<1009::nat] = 1009 - 10" by (rule length_upt)
  then show "length exampleOtherIDs = 999" by (simp only: exampleOtherIDs_def diff_numeral_simps)
  show "set exampleOtherIDs = {10..<1009}" by (simp only: exampleOtherIDs_def set_upt)
  show "distinct exampleOtherIDs" by (simp only: exampleOtherIDs_def distinct_upt)
qed

lemma exampleTies_filesWithIDs:
  "filesWithIDs exampleTies (3 # exampleOtherIDs) = [exampleReadme]"
  "filesWithIDs exampleTies (4 # exampleOtherIDs) = [exampleReadmeLower]"
  "filesWithIDs exampleTies [3] = [exampleReadme]"
  "filesWithIDs exampleTies [4] = [exampleReadmeLower]"
  by (simp_all add: filesWithIDs_def selectAll_def exampleTies_simps exampleReadme_def exampleReadmeLower_def
      exampleOtherIDs_simps image_int_atLeastLessThan)

lemma exampleIDs_chunks:
  "chunksOf exampleIDsForward = [3 # exampleOtherIDs, [4]]"
  "chunksOf exampleIDsBackward = [4 # exampleOtherIDs, [3]]"
  "chunksOf exampleIDsRepeated = [3 # exampleOtherIDs, [3]]"
  using chunksOf_two[of "3 # exampleOtherIDs" "[4]"] chunksOf_two[of "4 # exampleOtherIDs" "[3]"]
    chunksOf_two[of "3 # exampleOtherIDs" "[3]"]
  by (simp_all add: exampleIDsForward_def exampleIDsBackward_def exampleIDsRepeated_def exampleOtherIDs_simps)

lemma exampleIDs_fetched:
  "concat (map (filesWithIDs exampleTies) (chunksOf exampleIDsForward)) = [exampleReadme, exampleReadmeLower]"
  "concat (map (filesWithIDs exampleTies) (chunksOf exampleIDsBackward)) = [exampleReadmeLower, exampleReadme]"
  "concat (map (filesWithIDs exampleTies) (chunksOf exampleIDsRepeated)) = [exampleReadme, exampleReadme]"
  by (simp_all add: exampleIDs_chunks exampleTies_filesWithIDs)



lemma exampleReadme_populated:
  "populated exampleTies exampleReadme = exampleReadme\<lparr>File_Category := Some exampleCategory\<rparr>"
  "populated exampleTies exampleReadmeLower = exampleReadmeLower\<lparr>File_Category := Some exampleCategory\<rparr>"
  by (simp_all add: exampleTies_populated exampleReadme_def exampleReadmeLower_def)


lemma chunksOf_nth:
  "i < length ids \<Longrightarrow>
   i div 1000 < length (chunksOf ids) \<and> ids ! i \<in> set (chunksOf ids ! (i div 1000))"
proof (induction ids arbitrary: i rule: chunksOf.induct)
  case (1 ids)
  show ?case
  proof (cases "length ids > 1000")
    case long: True
    show ?thesis
    proof (cases "i < 1000")
      case True
      then have "i div 1000 = 0" by simp
      moreover have "ids ! i \<in> set (take 1000 ids)"
        using True "1.prems" by (metis in_set_conv_nth length_take min_less_iff_conj nth_take)
      ultimately show ?thesis
        unfolding chunksOf_long[OF long] by simp
    next
      case False
      then have i: "i - 1000 < length (drop 1000 ids)" "i = (i - 1000) + 1000"
        using "1.prems" by simp_all
      from "1.IH"[OF long i(1)] have
        "(i - 1000) div 1000 < length (chunksOf (drop 1000 ids))"
        "drop 1000 ids ! (i - 1000) \<in> set (chunksOf (drop 1000 ids) ! ((i - 1000) div 1000))"
        by simp_all
      moreover have "i div 1000 = Suc ((i - 1000) div 1000)"
        using False by (metis i(2) div_add_self2 zero_neq_numeral Suc_eq_plus1)
      moreover have "drop 1000 ids ! (i - 1000) = ids ! i"
        using False "1.prems" by simp
      ultimately show ?thesis
        unfolding chunksOf_long[OF long] by simp
    qed
  next
    case short: False
    with "1.prems" have "i div 1000 = 0" by simp
    moreover from "1.prems" have "0 < length ids" by auto
    ultimately show ?thesis
      unfolding chunksOf_short[OF short] using "1.prems" by simp
  qed
qed

lemma count_concat_two:
  assumes "a < b" "b < length L" "x \<in> set (L ! a)" "x \<in> set (L ! b)"
  shows "2 \<le> count (mset (concat L)) x"
proof -
  from assms have a: "a < length L" by simp
  have L: "L = take a L @ L ! a # drop (Suc a) L"
    using a by (rule id_take_nth_drop)
  have "L ! b = drop (Suc a) L ! (b - Suc a)"
    using assms by simp
  moreover have "b - Suc a < length (drop (Suc a) L)"
    using assms by simp
  ultimately have "L ! b \<in> set (drop (Suc a) L)"
    by (metis nth_mem)
  with assms(4) have "x \<in> set (concat (drop (Suc a) L))"
    by auto
  then have 1: "1 \<le> count (mset (concat (drop (Suc a) L))) x"
    by (simp add: Suc_le_eq)
  from assms(3) have 2: "1 \<le> count (mset (L ! a)) x"
    by (simp add: Suc_le_eq)
  have "count (mset (concat L)) x
      = count (mset (concat (take a L))) x + count (mset (L ! a)) x + count (mset (concat (drop (Suc a) L))) x"
    by (subst L) simp
  with 1 2 show ?thesis by linarith
qed

lemma count_image_mset_ge: "count M x \<le> count (image_mset g M) (g x)"
  by (induction M) auto

lemma filesWithIDs_member:
  "Err op = None \<Longrightarrow> f \<in> set (Files op) \<Longrightarrow> File_ID f = int k \<Longrightarrow> k \<in> set chunk \<Longrightarrow>
   f \<in> set (filesWithIDs op chunk)"
  by (auto simp: filesWithIDs_def selectAll_def)

text \<open>
  C10. \<^verbatim>\<open>GetFilesByIDs\<close> does not remove a repeated id: when the same id stands at two
  positions of the list that are 1000 or more apart, the two positions are in different
  chunks, each chunk's query returns the stored file of that id, and the result holds its
  record at least twice.
\<close>

theorem GetFilesByIDs_repeated_id:
  assumes c: "sortSlice_contract sortSlice" and e: "Err op = None"
    and i: "i + 1000 \<le> j" "j < length ids" "ids ! i = ids ! j"
    and f: "f \<in> set (Files op)" "File_ID f = int (ids ! i)"
  shows "\<exists>files. GetFilesByIDs sortSlice ids op = Return (files, None)
     \<and> 2 \<le> count (mset files) (populated op f)"
proof -
  let ?L = "map (filesWithIDs op) (chunksOf ids)"
  let ?files = "map (populated op) (sortSlice fileLess (concat ?L))"
  have r: "GetFilesByIDs sortSlice ids op = Return (?files, None)"
    by (simp add: GetFilesByIDs_eq PopulateCategories_files[OF e] e)
  from i have il: "i < length ids" by simp
  from chunksOf_nth[OF il] chunksOf_nth[OF i(2)] have
    n: "i div 1000 < length (chunksOf ids)" "j div 1000 < length (chunksOf ids)"
    and m: "ids ! i \<in> set (chunksOf ids ! (i div 1000))" "ids ! j \<in> set (chunksOf ids ! (j div 1000))"
    by simp_all
  have lt: "i div 1000 < j div 1000"
  proof -
    have "(i + 1000) div 1000 \<le> j div 1000"
      using i(1) by (rule div_le_mono)
    then show ?thesis by simp
  qed
  have "f \<in> set (?L ! (i div 1000))" "f \<in> set (?L ! (j div 1000))"
    using n m f i(3) by (simp_all add: filesWithIDs_member[OF e])
  with lt n have "2 \<le> count (mset (concat ?L)) f"
    by (intro count_concat_two[of "i div 1000" "j div 1000"]) simp_all
  then have "2 \<le> count (mset (sortSlice fileLess (concat ?L))) f"
    by (simp add: contract_mset[OF c])
  also have "\<dots> \<le> count (image_mset (populated op) (mset (sortSlice fileLess (concat ?L)))) (populated op f)"
    by (rule count_image_mset_ge)
  finally have "2 \<le> count (mset ?files) (populated op f)"
    by simp
  with r show ?thesis by blast
qed

theorem GetFilesByIDs_repeated_id_witness:
  "sortSlice_contract insertionSort \<and> Err exampleTies = None
   \<and> 0 + 1000 \<le> (1000::nat) \<and> 1000 < length exampleIDsRepeated
   \<and> exampleIDsRepeated ! 0 = 3 \<and> exampleIDsRepeated ! 1000 = 3
   \<and> filter (\<lambda>f. File_ID f = 3) (Files exampleTies) = [exampleReadme]
   \<and> GetFilesByIDs insertionSort exampleIDsRepeated exampleTies
         = Return ([exampleReadme\<lparr>File_Category := Some exampleCategory\<rparr>,
                    exampleReadme\<lparr>File_Category := Some exampleCategory\<rparr>], None)
   \<and> 2 \<le> count (mset [exampleReadme\<lparr>File_Category := Some exampleCategory\<rparr>,
                         exampleReadme\<lparr>File_Category := Some exampleCategory\<rparr>])
              (populated exampleTies exampleReadme)"
proof -
  note c = insertionSort_contract
  note e = exampleTies_simps(1)
  have l: "1000 < length exampleIDsRepeated"
    by (simp add: exampleIDsRepeated_def exampleOtherIDs_simps)
  have n: "exampleIDsRepeated ! 0 = 3" "exampleIDsRepeated ! 1000 = 3"
    by (simp_all add: exampleIDsRepeated_def nth_append exampleOtherIDs_simps)
  have o: "filter (\<lambda>f. File_ID f = 3) (Files exampleTies) = [exampleReadme]"
    by (simp add: exampleTies_simps exampleReadme_def exampleReadmeLower_def)
  have f: "exampleReadme \<in> set (Files exampleTies)" "File_ID exampleReadme = int (exampleIDsRepeated ! 0)"
    by (simp_all add: exampleTies_simps n) (simp add: exampleReadme_def)
  have "insertionSort fileLess [exampleReadme, exampleReadme] = [exampleReadme, exampleReadme]"
    by (simp add: insertionSort_def fileLess_key)
  then have r: "GetFilesByIDs insertionSort exampleIDsRepeated exampleTies
         = Return ([exampleReadme\<lparr>File_Category := Some exampleCategory\<rparr>,
                    exampleReadme\<lparr>File_Category := Some exampleCategory\<rparr>], None)"
    by (simp add: GetFilesByIDs_eq exampleIDs_fetched
        PopulateCategories_files exampleTies_simps exampleReadme_populated)
  from GetFilesByIDs_repeated_id[where i=0 and j=1000 and ids=exampleIDsRepeated, OF c e _ l _ f] n r
  have "2 \<le> count (mset [exampleReadme\<lparr>File_Category := Some exampleCategory\<rparr>,
                         exampleReadme\<lparr>File_Category := Some exampleCategory\<rparr>])
              (populated exampleTies exampleReadme)"
    by simp
  with c e l n o r show ?thesis by simp
qed

section \<open>Search totals\<close>

lemma fileMatches_Limit: "fileMatches (Limit n s) = fileMatches s"
  by (simp add: fun_eq_iff fileMatches_def inScope_def matchesTerm_def Limit_def)

lemma folderMatches_Limit: "folderMatches (Limit n s) = folderMatches s"
  by (simp add: fun_eq_iff folderMatches_def inScope_def matchesTerm_def Limit_def)

lemma capped_Limit: "capped (Limit n s) rows = take n rows"
  by (simp add: capped_def Limit_def)

lemma SearchFiles_eq:
  "SearchFiles category folder term limit op =
     (take limit (selectAll op (fileMatches (searchSelect category folder term)) (Files op)),
      length (selectAll op (fileMatches (searchSelect category folder term)) (Files op)),
      Err op)"
  by (simp add: SearchFiles_def Files_AllObjects_def Let_def fileMatches_Limit capped_Limit searchSelect_def)

lemma SearchFolders_eq:
  "SearchFolders category folder term limit op =
     (take limit (selectAll op (folderMatches (searchSelect category folder term)) (Folders op)),
      length (selectAll op (folderMatches (searchSelect category folder term)) (Folders op)),
      Err op)"
  by (simp add: SearchFolders_def Folders_AllObjects_def Let_def folderMatches_Limit capped_Limit searchSelect_def)

text \<open>
  C8. The total that \<^verbatim>\<open>SearchFiles\<close> and \<^verbatim>\<open>SearchFolders\<close> return does not depend on the
  limit: for any two limits, so for 1 and 1000, the totals over the same stored data are
  equal. On an operation without an error the total is the number of all rows that match
  (the descendants of the folder in the category whose path, or name, contains the term),
  and the returned slice is the first \<open>limit\<close> of them.
\<close>

theorem Search_total_independent_of_limit:
  "fst (snd (SearchFiles category folder term limit op)) = fst (snd (SearchFiles category folder term limit' op))
   \<and> fst (snd (SearchFolders category folder term limit op)) = fst (snd (SearchFolders category folder term limit' op))
   \<and> fst (snd (SearchFiles category folder term 1 op)) = fst (snd (SearchFiles category folder term 1000 op))
   \<and> fst (snd (SearchFolders category folder term 1 op)) = fst (snd (SearchFolders category folder term 1000 op))
   \<and> (Err op = None \<longrightarrow>
        SearchFiles category folder term limit op
          = (take limit (filter (fileMatches (searchSelect category folder term)) (Files op)),
             length (filter (fileMatches (searchSelect category folder term)) (Files op)), None)
      \<and> SearchFolders category folder term limit op
          = (take limit (filter (folderMatches (searchSelect category folder term)) (Folders op)),
             length (filter (folderMatches (searchSelect category folder term)) (Folders op)), None))"
  by (simp add: SearchFiles_eq SearchFolders_eq selectAll_def)

lemma exampleLibrary_simps:
  "Err exampleLibrary = None"
  "Files exampleLibrary = [exampleFileA, exampleFileB, exampleFileC]"
  "Folders exampleLibrary = [exampleFolderA, exampleFolderB, exampleFolderSub]"
  by (simp_all add: exampleLibrary_def exampleCatalog_def emptyOperation_def)

lemma exampleSearch_files:
  "filter (fileMatches (searchSelect exampleCategory (Some exampleFolderA) ''.tif'')) (Files exampleLibrary)
      = [exampleFileA, exampleFileB]"
  by (simp add: exampleLibrary_simps) code_simp

lemma exampleSearch_folders:
  "filter (folderMatches (searchSelect exampleCategory None ''2020'')) (Folders exampleLibrary)
      = [exampleFolderA, exampleFolderB]"
  by (simp add: exampleLibrary_simps) code_simp

theorem Search_total_independent_of_limit_witness:
  "Err exampleLibrary = None
   \<and> SearchFiles exampleCategory (Some exampleFolderA) ''.tif'' 1 exampleLibrary = ([exampleFileA], 2, None)
   \<and> SearchFiles exampleCategory (Some exampleFolderA) ''.tif'' 1000 exampleLibrary
        = ([exampleFileA, exampleFileB], 2, None)
   \<and> SearchFolders exampleCategory None ''2020'' 1 exampleLibrary = ([exampleFolderA], 2, None)
   \<and> SearchFolders exampleCategory None ''2020'' 1000 exampleLibrary = ([exampleFolderA, exampleFolderB], 2, None)"
proof -
  note e = exampleLibrary_simps(1)
  from Search_total_independent_of_limit[of exampleCategory "Some exampleFolderA" "''.tif''" 1 exampleLibrary 1000] e
  have 1: "SearchFiles exampleCategory (Some exampleFolderA) ''.tif'' 1 exampleLibrary = ([exampleFileA], 2, None)"
    by (simp only: exampleSearch_files) simp
  from Search_total_independent_of_limit[of exampleCategory "Some exampleFolderA" "''.tif''" 1000 exampleLibrary 1] e
  have 2: "SearchFiles exampleCategory (Some exampleFolderA) ''.tif'' 1000 exampleLibrary = ([exampleFileA, exampleFileB], 2, None)"
    by (simp only: exampleSearch_files) simp
  from Search_total_independent_of_limit[of exampleCategory None "''2020''" 1 exampleLibrary 1000] e
  have 3: "SearchFolders exampleCategory None ''2020'' 1 exampleLibrary = ([exampleFolderA], 2, None)"
    by (simp only: exampleSearch_folders) simp
  from Search_total_independent_of_limit[of exampleCategory None "''2020''" 1000 exampleLibrary 1] e
  have 4: "SearchFolders exampleCategory None ''2020'' 1000 exampleLibrary = ([exampleFolderA, exampleFolderB], 2, None)"
    by (simp only: exampleSearch_folders) simp
  from e 1 2 3 4 show ?thesis by (intro conjI)
qed

end
